theory Spec2Isabelle
  imports Complex_Main
begin

section \<open>Python values and exceptions\<close>

text \<open>
  The exceptions the two modules can raise.  \<open>IndexError\<close>, \<open>ValueError\<close>, \<open>OverflowError\<close>,
  \<open>ZeroDivisionError\<close>, \<open>TypeError\<close> and \<open>MemoryError\<close> are the interpreter's and numpy's
  own.
  \<open>NotFoundError\<close> and \<open>InvalidConfigurationError\<close> are the two names the specification
  uses; no function of the source raises them, and they are here only so that statements
  about them can be written down.
\<close>

datatype py_error =
    IndexError
  | ValueError
  | OverflowError
  | ZeroDivisionError
  | TypeError
  | MemoryError
  | NotFoundError
  | InvalidConfigurationError

text \<open>Sequencing of fallible steps: the first exception ends the computation.\<close>

definition and_then :: "py_error + 'a \<Rightarrow> ('a \<Rightarrow> py_error + 'b) \<Rightarrow> py_error + 'b" where
  "and_then m f = (case m of Inl e \<Rightarrow> Inl e | Inr x \<Rightarrow> f x)"

text \<open>
  A number handed to \<open>int()\<close>: a Python integer or a float.  Finite floats are idealised as
  reals; the three non-finite floats are kept apart because \<open>int()\<close> raises on them.
\<close>

datatype py_number = PyInt int | PyFloat real | PyInf | PyNegInf | PyNaN

text \<open>\<open>int(x)\<close>: an integer is returned as it is, a finite float loses its fractional part.\<close>

fun py_int :: "py_number \<Rightarrow> py_error + int" where
  "py_int (PyInt n) = Inr n"
| "py_int (PyFloat x) = Inr (if 0 \<le> x then \<lfloor>x\<rfloor> else \<lceil>x\<rceil>)"
| "py_int PyInf = Inl OverflowError"
| "py_int PyNegInf = Inl OverflowError"
| "py_int PyNaN = Inl ValueError"

text \<open>\<open>range(a, b)\<close> with step 1, as a list of integers.\<close>

definition py_range :: "int \<Rightarrow> int \<Rightarrow> int list" where
  "py_range a b = [a..b - 1]"

section \<open>heatpipes.py\<close>

text \<open>
  The attributes of class \<open>Heatpipes\<close>.  The radii and conductivities go through
  \<open>float()\<close>, which leaves a finite number as it is; they are taken as reals.
\<close>

record Heatpipes =
  N :: int
  r_b :: real
  r_w :: real
  r_iso_a :: real
  r_pa :: real
  r_pi :: real
  lambda_b :: real
  lambda_iso :: real
  lambda_p :: real

text \<open>\<open>Heatpipes.__init__\<close>: nine coercions and nine assignments, nothing else.\<close>

definition Heatpipes_init ::
  "py_number \<Rightarrow> real \<Rightarrow> real \<Rightarrow> real \<Rightarrow> real \<Rightarrow> real \<Rightarrow> real \<Rightarrow> real \<Rightarrow> real
     \<Rightarrow> py_error + Heatpipes" where
  "Heatpipes_init n rb rw riso rpa rpi lb liso lp =
     and_then (py_int n) (\<lambda>k.
       Inr \<lparr>N = k, r_b = rb, r_w = rw, r_iso_a = riso, r_pa = rpa, r_pi = rpi,
            lambda_b = lb, lambda_iso = liso, lambda_p = lp\<rparr>)"

text \<open>
  float64 arithmetic.  A finite float is the real number it denotes.  What the machine
  computes with floats is not what the reals give: every operation rounds, the constant
  \<open>pi\<close> is the float nearest to \<open>\<pi>\<close>, and \<open>cos\<close> and \<open>sin\<close> are those of the C library.
  These operations are parameters of the model, and nothing is assumed about them:
  \<open>fl_of_int\<close> is the conversion of a Python integer that meets a float in a product or
  quotient, \<open>fl_mul\<close> and \<open>fl_div\<close> are the float product and quotient, \<open>fl_cos\<close> and
  \<open>fl_sin\<close> are \<open>np.cos\<close> and \<open>np.sin\<close>, \<open>fl_pi\<close> is \<open>scipy.constants.pi\<close>.
  \<open>max_rows\<close> is the largest \<open>n\<close> for which the allocator grants the memory of an
  \<open>n \<times> 2\<close> matrix of floats.
\<close>

record machine =
  max_rows :: nat
  fl_of_int :: "int \<Rightarrow> real"
  fl_mul :: "real \<Rightarrow> real \<Rightarrow> real"
  fl_div :: "real \<Rightarrow> real \<Rightarrow> real"
  fl_cos :: "real \<Rightarrow> real"
  fl_sin :: "real \<Rightarrow> real"
  fl_pi :: real

text \<open>
  An \<open>n \<times> 2\<close> numpy matrix is a list of rows, each a pair (column 0, column 1).
  \<open>np.zeros([n, 2])\<close> raises \<open>ValueError\<close> on a negative dimension, and \<open>ValueError\<close>
  again when the size of the array in bytes, \<open>8 \<sqdot> n \<sqdot> 2\<close>, is beyond the largest size
  \<open>2\<^sup>6\<^sup>3 - 1\<close> of a 64-bit platform, that is from \<open>n = 2\<^sup>5\<^sup>9\<close> on (from \<open>2\<^sup>6\<^sup>3\<close> on the
  dimension itself is refused, with the same exception); it raises \<open>MemoryError\<close> when
  the allocator refuses the memory.
\<close>

type_synonym matrix2 = "(real \<times> real) list"

definition np_zeros2 :: "machine \<Rightarrow> int \<Rightarrow> py_error + matrix2" where
  "np_zeros2 mc n =
     (if n < 0 then Inl ValueError
      else if 2 ^ 59 \<le> n then Inl ValueError
      else if int (max_rows mc) < n then Inl MemoryError
      else Inr (replicate (nat n) (0, 0)))"

text \<open>
  \<open>m[i, 0] = v\<close> and \<open>m[i, 1] = v\<close>: numpy counts a negative row index from the end and
  raises \<open>IndexError\<close> outside \<open>[-len, len)\<close>.
\<close>

definition np_row :: "matrix2 \<Rightarrow> int \<Rightarrow> py_error + nat" where
  "np_row m i =
     (let n = int (length m) in
      if 0 \<le> i \<and> i < n then Inr (nat i)
      else if - n \<le> i \<and> i < 0 then Inr (nat (i + n))
      else Inl IndexError)"

definition set_col0 :: "matrix2 \<Rightarrow> int \<Rightarrow> real \<Rightarrow> py_error + matrix2" where
  "set_col0 m i v = and_then (np_row m i) (\<lambda>k. Inr (m[k := (v, snd (m ! k))]))"

definition set_col1 :: "matrix2 \<Rightarrow> int \<Rightarrow> real \<Rightarrow> py_error + matrix2" where
  "set_col1 m i v = and_then (np_row m i) (\<lambda>k. Inr (m[k := (fst (m ! k), v)]))"

text \<open>
  The angle \<open>2 * pi * i / self.N\<close>, evaluated from left to right in floats: the product of
  \<open>2\<close> and \<open>pi\<close>, times \<open>i\<close>, divided by \<open>self.N\<close>.  The division raises when
  \<open>self.N\<close> is zero.
\<close>

definition angle_of :: "machine \<Rightarrow> int \<Rightarrow> int \<Rightarrow> real" where
  "angle_of mc i n =
     fl_div mc (fl_mul mc (fl_mul mc (fl_of_int mc 2) (fl_pi mc)) (fl_of_int mc i))
       (fl_of_int mc n)"

definition angle :: "machine \<Rightarrow> int \<Rightarrow> int \<Rightarrow> py_error + real" where
  "angle mc i n = (if n = 0 then Inl ZeroDivisionError else Inr (angle_of mc i n))"

text \<open>The body of the loop \<open>for i in range(self.N)\<close> of \<open>xy_mat\<close>, and the loop.\<close>

definition xy_step :: "machine \<Rightarrow> Heatpipes \<Rightarrow> int \<Rightarrow> matrix2 \<Rightarrow> py_error + matrix2" where
  "xy_step mc h i m =
     and_then (angle mc i (N h)) (\<lambda>a.
     and_then (set_col0 m i (fl_mul mc (r_w h) (fl_cos mc a))) (\<lambda>m1.
     and_then (angle mc i (N h)) (\<lambda>b.
     set_col1 m1 i (fl_mul mc (r_w h) (fl_sin mc b)))))"

fun xy_loop :: "machine \<Rightarrow> Heatpipes \<Rightarrow> int list \<Rightarrow> matrix2 \<Rightarrow> py_error + matrix2" where
  "xy_loop mc h [] m = Inr m"
| "xy_loop mc h (i # rest) m = and_then (xy_step mc h i m) (xy_loop mc h rest)"

definition xy_mat :: "machine \<Rightarrow> Heatpipes \<Rightarrow> py_error + matrix2" where
  "xy_mat mc h = and_then (np_zeros2 mc (N h)) (xy_loop mc h (py_range 0 (N h)))"



text \<open>
  Example data: a machine whose arithmetic is exact and which grants up to \<open>2\<^sup>3\<^sup>2\<close> rows
  (64 GiB).  The examples use it where float64 arithmetic gives the same result (the
  angle 0), or where the arithmetic plays no part.
\<close>

definition exact_machine :: machine where
  "exact_machine =
     \<lparr>max_rows = 4294967296, fl_of_int = real_of_int, fl_mul = (*), fl_div = (/),
      fl_cos = cos, fl_sin = sin, fl_pi = pi\<rparr>"

section \<open>weather_data.py\<close>

text \<open>
  One row of the table that \<open>pd.read_excel\<close> returns.  The fields are the columns by
  position, as the source addresses them: 0 month, 1 day, 3 precipitation [mm/h],
  4 temperature [\<degree>C], 5 relative humidity [%], 6 wind speed [m/s], 7 cloudiness [octas].
  Cell values are idealised as reals (integers for the two calendar columns).
\<close>

record row =
  c0 :: int
  c1 :: int
  c2 :: real
  c3 :: real
  c4 :: real
  c5 :: real
  c6 :: real
  c7 :: real

text \<open>
  The objects the function works on live in a store: the data frame, and the numpy arrays
  it creates.  An array is mutable and is handled through its address, so that an
  assignment \<open>a[i] = v\<close> is visible through every name of the same object and through
  no other object.  \<open>nxt\<close> is the next free address.
\<close>

datatype obj = DataFrame "row list" | NdArray "real list"

record store =
  objs :: "nat \<Rightarrow> obj option"
  nxt :: nat

definition alloc :: "obj \<Rightarrow> store \<Rightarrow> nat \<times> store" where
  "alloc ob st = (nxt st, st\<lparr>objs := (objs st)(nxt st \<mapsto> ob), nxt := Suc (nxt st)\<rparr>)"

definition frame_of :: "store \<Rightarrow> nat \<Rightarrow> py_error + row list" where
  "frame_of st a = (case objs st a of Some (DataFrame t) \<Rightarrow> Inr t | _ \<Rightarrow> Inl TypeError)"

definition array_of :: "store \<Rightarrow> nat \<Rightarrow> py_error + real list" where
  "array_of st a = (case objs st a of Some (NdArray xs) \<Rightarrow> Inr xs | _ \<Rightarrow> Inl TypeError)"

text \<open>\<open>len(data)\<close> and the length of an array.\<close>

definition len_frame :: "store \<Rightarrow> nat \<Rightarrow> py_error + int" where
  "len_frame st a = and_then (frame_of st a) (\<lambda>t. Inr (int (length t)))"

definition len_array :: "store \<Rightarrow> nat \<Rightarrow> py_error + nat" where
  "len_array st a = and_then (array_of st a) (\<lambda>xs. Inr (length xs))"

text \<open>
  \<open>data.index[(data.iloc[:, 0] == month) & (data.iloc[:, 1] == day)].tolist()\<close>: the
  positions of the rows whose first two columns are the month and the day, in order
  (the frame has the default index \<open>0, 1, 2, \<dots>\<close>).
\<close>

definition matching_index :: "store \<Rightarrow> nat \<Rightarrow> int \<Rightarrow> int \<Rightarrow> py_error + int list" where
  "matching_index st a month day =
     and_then (frame_of st a) (\<lambda>t.
       Inr (map int (filter (\<lambda>i. c0 (t ! i) = month \<and> c1 (t ! i) = day) [0..<length t])))"

text \<open>\<open>xs[0]\<close> on a Python list.\<close>

definition item0 :: "'a list \<Rightarrow> py_error + 'a" where
  "item0 xs = (case xs of [] \<Rightarrow> Inl IndexError | x # _ \<Rightarrow> Inr x)"

text \<open>Line 25: the first of the matching positions.\<close>

definition locate_start :: "store \<Rightarrow> nat \<Rightarrow> int \<Rightarrow> int \<Rightarrow> py_error + int" where
  "locate_start st a month day = and_then (matching_index st a month day) item0"

text \<open>
  The values of \<open>data.iloc[rows, k]\<close>: pandas counts a negative position from the end and
  raises \<open>IndexError\<close> when a position is outside \<open>[-len, len)\<close>.
\<close>

definition iloc :: "store \<Rightarrow> nat \<Rightarrow> int list \<Rightarrow> (row \<Rightarrow> real) \<Rightarrow> py_error + real list" where
  "iloc st a rows col =
     and_then (frame_of st a) (\<lambda>t.
       let n = int (length t) in
       if list_all (\<lambda>i. - n \<le> i \<and> i < n) rows
       then Inr (map (\<lambda>i. col (t ! nat (if i < 0 then i + n else i))) rows)
       else Inl IndexError)"

text \<open>\<open>np.array(data.iloc[rows, k])\<close>: a new array holding a copy of the values.\<close>

definition np_array_iloc ::
  "store \<Rightarrow> nat \<Rightarrow> int list \<Rightarrow> (row \<Rightarrow> real) \<Rightarrow> py_error + (nat \<times> store)" where
  "np_array_iloc st a rows col =
     and_then (iloc st a rows col) (\<lambda>xs. Inr (alloc (NdArray xs) st))"

text \<open>\<open>a / k\<close> on an array: a new array, the operand is left as it is.\<close>

definition np_divide :: "store \<Rightarrow> nat \<Rightarrow> real \<Rightarrow> py_error + (nat \<times> store)" where
  "np_divide st a k =
     and_then (array_of st a) (\<lambda>xs. Inr (alloc (NdArray (map (\<lambda>x. x / k) xs)) st))"

text \<open>Reading \<open>a[i]\<close> and the assignment \<open>a[i] = v\<close>, for \<open>i \<ge> 0\<close>.\<close>

definition getitem :: "store \<Rightarrow> nat \<Rightarrow> nat \<Rightarrow> py_error + real" where
  "getitem st a i =
     and_then (array_of st a) (\<lambda>xs. if i < length xs then Inr (xs ! i) else Inl IndexError)"

definition setitem :: "store \<Rightarrow> nat \<Rightarrow> nat \<Rightarrow> real \<Rightarrow> py_error + store" where
  "setitem st a i v =
     and_then (array_of st a) (\<lambda>xs.
       if i < length xs then Inr (st\<lparr>objs := (objs st)(a \<mapsto> NdArray (xs[i := v]))\<rparr>)
       else Inl IndexError)"

text \<open>
  Lines 44 to 46: \<open>for i, j in enumerate(Theta_inf): if j >= 1: S_w[i] = 0\<close>.  The
  iteration reads element \<open>i\<close> of \<open>Theta_inf\<close> when it reaches it.
\<close>

fun zero_rain :: "nat \<Rightarrow> nat \<Rightarrow> nat list \<Rightarrow> store \<Rightarrow> py_error + store" where
  "zero_rain Theta_inf S_w [] st = Inr st"
| "zero_rain Theta_inf S_w (i # rest) st =
     and_then (getitem st Theta_inf i) (\<lambda>j.
       if j \<ge> 1 then and_then (setitem st S_w i 0) (zero_rain Theta_inf S_w rest)
       else zero_rain Theta_inf S_w rest st)"

definition enumerate_loop :: "nat \<Rightarrow> nat \<Rightarrow> store \<Rightarrow> py_error + store" where
  "enumerate_loop Theta_inf S_w st =
     and_then (len_array st Theta_inf) (\<lambda>n. zero_rain Theta_inf S_w [0..<n] st)"

text \<open>Lines 27 to 33: the list of row positions.\<close>

definition select_rows :: "int \<Rightarrow> int \<Rightarrow> int \<Rightarrow> int list" where
  "select_rows start_index Nt len_data =
     (if start_index + Nt > len_data then
        (if 0 \<noteq> start_index then py_range start_index len_data @ py_range 0 start_index
         else py_range 0 len_data)
      else py_range start_index (start_index + Nt))"

text \<open>
  \<open>get_weather_data(Nt, self)\<close>.  What the function takes from its surroundings is a
  parameter here: \<open>data\<close> is the address of the frame that \<open>pd.read_excel\<close> returned,
  \<open>month\<close> and \<open>day\<close> are the two values read from the widgets, \<open>st\<close> is the store at
  that moment.  The result is the tuple of the six arrays (their addresses) and the store
  at the return.
\<close>

definition get_weather_data ::
  "int \<Rightarrow> nat \<Rightarrow> int \<Rightarrow> int \<Rightarrow> store
     \<Rightarrow> py_error + ((nat \<times> nat \<times> nat \<times> nat \<times> nat \<times> nat) \<times> store)" where
  "get_weather_data Nt data month day st =
     and_then (locate_start st data month day) (\<lambda>start_index.
     and_then (len_frame st data) (\<lambda>len_data.
     let rows = select_rows start_index Nt len_data in
     and_then (np_array_iloc st data rows c6) (\<lambda>(u_inf, st).
     and_then (np_array_iloc st data rows c4) (\<lambda>(Theta_inf, st).
     and_then (np_array_iloc st data rows c3) (\<lambda>(S_w, st).
     and_then (enumerate_loop Theta_inf S_w st) (\<lambda>st.
     and_then (np_array_iloc st data rows c7) (\<lambda>(octas, st).
     and_then (np_divide st octas 8) (\<lambda>(B, st).
     and_then (np_array_iloc st data rows c5) (\<lambda>(percent, st).
     and_then (np_divide st percent 100) (\<lambda>(Phi, st).
     and_then (np_array_iloc st data rows c3) (\<lambda>(RR, st).
     Inr ((u_inf, Theta_inf, S_w, B, Phi, RR), st))))))))))))"

text \<open>
  Example data: a table of three hourly rows (1 January to 3 January, one row each), and a
  store that holds this table at address 0 and nothing else.
\<close>

definition table3 :: "row list" where
  "table3 =
     [\<lparr>c0 = 1, c1 = 1, c2 = 0, c3 = 2, c4 = - 3, c5 = 80, c6 = 4, c7 = 8\<rparr>,
      \<lparr>c0 = 1, c1 = 2, c2 = 0, c3 = 5, c4 = 6, c5 = 50, c6 = 1, c7 = 4\<rparr>,
      \<lparr>c0 = 1, c1 = 3, c2 = 0, c3 = 1, c4 = 1 / 2, c5 = 100, c6 = 0, c7 = 0\<rparr>]"

definition store3 :: store where
  "store3 = \<lparr>objs = Map.empty(0 \<mapsto> DataFrame table3), nxt = 1\<rparr>"

section \<open>Properties of heatpipes.py\<close>

lemma py_range_empty: "b \<le> a \<Longrightarrow> py_range a b = []"
  by (simp add: py_range_def)

lemma py_range_set: "set (py_range a b) = {a..<b}"
  by (auto simp: py_range_def)

text \<open>
  The steps of the loop of \<open>xy_mat\<close>, when the row index is in range.
\<close>

lemma np_row_ok: "0 \<le> i \<Longrightarrow> i < int (length m) \<Longrightarrow> np_row m i = Inr (nat i)"
  by (simp add: np_row_def)

lemma xy_step_ok:
  assumes "N h \<noteq> 0" "0 \<le> i" "i < int (length m)"
  shows "xy_step mc h i m =
    Inr (m[nat i := (fl_mul mc (r_w h) (fl_cos mc (angle_of mc i (N h))),
                     fl_mul mc (r_w h) (fl_sin mc (angle_of mc i (N h))))])"
  using assms
  by (simp add: xy_step_def angle_def set_col0_def set_col1_def and_then_def np_row_ok)

text \<open>
  The loop invariant, for any list of row indices in range: a row that the loop has visited
  holds the coordinates of its pipe, every other row is as it was.
\<close>

lemma xy_loop_ok:
  assumes "N h \<noteq> 0" "list_all (\<lambda>i. 0 \<le> i \<and> i < int (length m)) js"
  shows "\<exists>m'. xy_loop mc h js m = Inr m' \<and> length m' = length m \<and>
           (\<forall>k<length m. m' ! k =
              (if int k \<in> set js
               then (fl_mul mc (r_w h) (fl_cos mc (angle_of mc (int k) (N h))),
                     fl_mul mc (r_w h) (fl_sin mc (angle_of mc (int k) (N h))))
               else m ! k))"
  using assms(2)
proof (induction js arbitrary: m)
  case Nil
  then show ?case by simp
next
  case (Cons j js)
  let ?m1 = "m[nat j := (fl_mul mc (r_w h) (fl_cos mc (angle_of mc j (N h))),
                         fl_mul mc (r_w h) (fl_sin mc (angle_of mc j (N h))))]"
  from Cons.prems have j: "0 \<le> j" "j < int (length m)" by simp_all
  have step: "xy_step mc h j m = Inr ?m1"
    using assms(1) j by (rule xy_step_ok)
  from Cons.prems have "list_all (\<lambda>i. 0 \<le> i \<and> i < int (length ?m1)) js" by simp
  from Cons.IH [OF this] obtain m' where
    m': "xy_loop mc h js ?m1 = Inr m'" "length m' = length ?m1"
        "\<forall>k<length ?m1. m' ! k =
              (if int k \<in> set js
               then (fl_mul mc (r_w h) (fl_cos mc (angle_of mc (int k) (N h))),
                     fl_mul mc (r_w h) (fl_sin mc (angle_of mc (int k) (N h))))
               else ?m1 ! k)"
    by blast
  have "xy_loop mc h (j # js) m = Inr m'"
    by (simp add: step and_then_def m'(1))
  moreover have "length m' = length m" using m'(2) by simp
  moreover have "\<forall>k<length m. m' ! k =
              (if int k \<in> set (j # js)
               then (fl_mul mc (r_w h) (fl_cos mc (angle_of mc (int k) (N h))),
                     fl_mul mc (r_w h) (fl_sin mc (angle_of mc (int k) (N h))))
               else m ! k)"
  proof (intro allI impI)
    fix k assume k: "k < length m"
    show "m' ! k =
              (if int k \<in> set (j # js)
               then (fl_mul mc (r_w h) (fl_cos mc (angle_of mc (int k) (N h))),
                     fl_mul mc (r_w h) (fl_sin mc (angle_of mc (int k) (N h))))
               else m ! k)"
    proof (cases "int k = j")
      case True
      then have "nat j = k" by simp
      with m'(3) k True show ?thesis by (auto simp: nth_list_update)
    next
      case False
      then have "nat j \<noteq> k" using j by auto
      with m'(3) k False show ?thesis by (auto simp: nth_list_update)
    qed
  qed
  ultimately show ?case by blast
qed

text \<open>
  The matrix that \<open>xy_mat\<close> returns when \<open>np.zeros\<close> can create it.
\<close>

lemma np_zeros2_ok:
  "0 \<le> n \<Longrightarrow> n < 2 ^ 59 \<Longrightarrow> n \<le> int (max_rows mc) \<Longrightarrow>
     np_zeros2 mc n = Inr (replicate (nat n) (0, 0))"
  by (simp add: np_zeros2_def)

lemma xy_mat_eq:
  assumes "1 \<le> N h" "N h < 2 ^ 59" "N h \<le> int (max_rows mc)"
  shows "xy_mat mc h =
    Inr (map (\<lambda>i. (fl_mul mc (r_w h) (fl_cos mc (angle_of mc (int i) (N h))),
                   fl_mul mc (r_w h) (fl_sin mc (angle_of mc (int i) (N h)))))
          [0..<nat (N h)])"
proof -
  let ?z = "replicate (nat (N h)) (0::real, 0::real)"
  have z: "np_zeros2 mc (N h) = Inr ?z" using assms by (simp add: np_zeros2_ok)
  have "list_all (\<lambda>i. 0 \<le> i \<and> i < int (length ?z)) (py_range 0 (N h))"
    using assms by (simp add: list_all_iff py_range_set)
  with xy_loop_ok [of h ?z "py_range 0 (N h)" mc] assms obtain m' where
    m': "xy_loop mc h (py_range 0 (N h)) ?z = Inr m'" "length m' = nat (N h)"
        "\<forall>k<nat (N h). m' ! k =
              (if int k \<in> set (py_range 0 (N h))
               then (fl_mul mc (r_w h) (fl_cos mc (angle_of mc (int k) (N h))),
                     fl_mul mc (r_w h) (fl_sin mc (angle_of mc (int k) (N h))))
               else ?z ! k)"
    by auto
  have "m' = map (\<lambda>i. (fl_mul mc (r_w h) (fl_cos mc (angle_of mc (int i) (N h))),
                       fl_mul mc (r_w h) (fl_sin mc (angle_of mc (int i) (N h)))))
               [0..<nat (N h)]"
    using m'(2,3) by (intro nth_equalityI) (auto simp: py_range_set)
  with z m'(1) show ?thesis by (simp add: xy_mat_def and_then_def)
qed

text \<open>
  How many rows \<open>xy_mat\<close> returns, and when it raises.
\<close>

lemma xy_mat_count:
  assumes "0 \<le> N h" "N h < 2 ^ 59" "N h \<le> int (max_rows mc)"
  shows "\<exists>pts. xy_mat mc h = Inr pts \<and> int (length pts) = N h"
proof (cases "N h = 0")
  case True
  then show ?thesis
    by (simp add: xy_mat_def np_zeros2_def and_then_def py_range_empty)
next
  case False
  with assms have "1 \<le> N h" by simp
  from xy_mat_eq [OF this assms(2,3)] show ?thesis using assms by simp
qed

lemma xy_mat_value_error: "N h < 0 \<or> 2 ^ 59 \<le> N h \<Longrightarrow> xy_mat mc h = Inl ValueError"
  by (auto simp: xy_mat_def np_zeros2_def and_then_def)

lemma xy_mat_memory_error:
  "N h < 2 ^ 59 \<Longrightarrow> int (max_rows mc) < N h \<Longrightarrow> xy_mat mc h = Inl MemoryError"
  by (auto simp: xy_mat_def np_zeros2_def and_then_def)


text \<open>
  The operations of the example machine.
\<close>

lemma exact_machine_simps:
  "max_rows exact_machine = 4294967296" "fl_of_int exact_machine = real_of_int"
  "fl_mul exact_machine = (*)" "fl_div exact_machine = (/)"
  "fl_cos exact_machine = cos" "fl_sin exact_machine = sin" "fl_pi exact_machine = pi"
  by (simp_all add: exact_machine_def)




text \<open>
  C5, as amended: the constructor validates nothing.  For every integer count and all
  radii and conductivities, nested or not, negative or not, it returns the object with the
  values stored as given, and on no input does it raise \<open>InvalidConfigurationError\<close>.
\<close>

theorem init_stores_unvalidated:
  "Heatpipes_init (PyInt k) rb rw riso rpa rpi lb liso lp =
     Inr \<lparr>N = k, r_b = rb, r_w = rw, r_iso_a = riso, r_pa = rpa, r_pi = rpi,
          lambda_b = lb, lambda_iso = liso, lambda_p = lp\<rparr> \<and>
   Heatpipes_init n rb rw riso rpa rpi lb liso lp \<noteq> Inl InvalidConfigurationError"
  by (cases n) (simp_all add: Heatpipes_init_def and_then_def)

text \<open>
  A count of \<open>-1\<close> with the five radii in the reverse of the nested order is accepted.
\<close>

theorem init_no_validation_counterexample:
  "Heatpipes_init (PyInt (- 1)) 1 2 3 4 5 1 1 1 =
     Inr \<lparr>N = - 1, r_b = 1, r_w = 2, r_iso_a = 3, r_pa = 4, r_pi = 5,
          lambda_b = 1, lambda_iso = 1, lambda_p = 1\<rparr> \<and>
   Heatpipes_init (PyInt (- 1)) 1 2 3 4 5 1 1 1 \<noteq> Inl InvalidConfigurationError"
  by (simp add: Heatpipes_init_def and_then_def)

text \<open>
  The three outcomes of \<open>xy_mat\<close>, by the stored count.
\<close>

lemma xy_mat_outcome:
  "(0 \<le> N h \<and> N h < 2 ^ 59 \<and> N h \<le> int (max_rows mc) \<longrightarrow>
      (\<exists>pts. xy_mat mc h = Inr pts \<and> int (length pts) = N h)) \<and>
   (N h < 0 \<or> 2 ^ 59 \<le> N h \<longrightarrow> xy_mat mc h = Inl ValueError) \<and>
   (N h < 2 ^ 59 \<and> int (max_rows mc) < N h \<longrightarrow> xy_mat mc h = Inl MemoryError)"
  using xy_mat_count [of h mc] xy_mat_value_error [of h mc] xy_mat_memory_error [of h mc]
  by blast

text \<open>
  C10, as amended: the stored count of a finite float \<open>x\<close> is \<open>x\<close> truncated toward
  zero (the integer \<open>k\<close> of the same sign with \<open>\<bar>k\<bar> \<le> \<bar>x\<bar> < \<bar>k\<bar> + 1\<close>), an integer
  count is stored as it is; \<open>xy_mat\<close> then returns as many rows as the stored count when
  that is not negative, below \<open>2\<^sup>5\<^sup>9\<close> and within the memory of the machine; it raises
  \<open>ValueError\<close> when the stored count is negative or at least \<open>2\<^sup>5\<^sup>9\<close>, and
  \<open>MemoryError\<close> when the memory is refused.
\<close>

theorem init_truncates_count:
  "(\<exists>h. Heatpipes_init (PyFloat x) rb rw riso rpa rpi lb liso lp = Inr h \<and>
        \<bar>real_of_int (N h)\<bar> \<le> \<bar>x\<bar> \<and> \<bar>x\<bar> < \<bar>real_of_int (N h)\<bar> + 1 \<and>
        0 \<le> real_of_int (N h) * x \<and>
        (0 \<le> N h \<and> N h < 2 ^ 59 \<and> N h \<le> int (max_rows mc) \<longrightarrow>
           (\<exists>pts. xy_mat mc h = Inr pts \<and> int (length pts) = N h)) \<and>
        (N h < 0 \<or> 2 ^ 59 \<le> N h \<longrightarrow> xy_mat mc h = Inl ValueError) \<and>
        (N h < 2 ^ 59 \<and> int (max_rows mc) < N h \<longrightarrow> xy_mat mc h = Inl MemoryError)) \<and>
   (\<exists>h. Heatpipes_init (PyInt k) rb rw riso rpa rpi lb liso lp = Inr h \<and> N h = k \<and>
        (0 \<le> N h \<and> N h < 2 ^ 59 \<and> N h \<le> int (max_rows mc) \<longrightarrow>
           (\<exists>pts. xy_mat mc h = Inr pts \<and> int (length pts) = N h)) \<and>
        (N h < 0 \<or> 2 ^ 59 \<le> N h \<longrightarrow> xy_mat mc h = Inl ValueError) \<and>
        (N h < 2 ^ 59 \<and> int (max_rows mc) < N h \<longrightarrow> xy_mat mc h = Inl MemoryError))"
proof -
  let ?t = "if 0 \<le> x then \<lfloor>x\<rfloor> else \<lceil>x\<rceil>"
  define hx where "hx = \<lparr>N = ?t, r_b = rb, r_w = rw, r_iso_a = riso, r_pa = rpa, r_pi = rpi,
            lambda_b = lb, lambda_iso = liso, lambda_p = lp\<rparr>"
  define hk where "hk = \<lparr>N = k, r_b = rb, r_w = rw, r_iso_a = riso, r_pa = rpa, r_pi = rpi,
            lambda_b = lb, lambda_iso = liso, lambda_p = lp\<rparr>"
  have ix: "Heatpipes_init (PyFloat x) rb rw riso rpa rpi lb liso lp = Inr hx"
    by (simp add: hx_def Heatpipes_init_def and_then_def)
  have ik: "Heatpipes_init (PyInt k) rb rw riso rpa rpi lb liso lp = Inr hk"
    by (simp add: hk_def Heatpipes_init_def and_then_def)
  have nx: "N hx = ?t" by (simp add: hx_def)
  have nk: "N hk = k" by (simp add: hk_def)
  have t1: "\<bar>real_of_int (N hx)\<bar> \<le> \<bar>x\<bar>" unfolding nx by (auto; linarith)
  have t2: "\<bar>x\<bar> < \<bar>real_of_int (N hx)\<bar> + 1" unfolding nx by (auto; linarith)
  have t3: "0 \<le> real_of_int (N hx) * x"
    unfolding nx by (auto simp: zero_le_mult_iff not_le intro: less_imp_le)
  show ?thesis
  proof (intro conjI)
    show "\<exists>h. Heatpipes_init (PyFloat x) rb rw riso rpa rpi lb liso lp = Inr h \<and>
        \<bar>real_of_int (N h)\<bar> \<le> \<bar>x\<bar> \<and> \<bar>x\<bar> < \<bar>real_of_int (N h)\<bar> + 1 \<and>
        0 \<le> real_of_int (N h) * x \<and>
        (0 \<le> N h \<and> N h < 2 ^ 59 \<and> N h \<le> int (max_rows mc) \<longrightarrow>
           (\<exists>pts. xy_mat mc h = Inr pts \<and> int (length pts) = N h)) \<and>
        (N h < 0 \<or> 2 ^ 59 \<le> N h \<longrightarrow> xy_mat mc h = Inl ValueError) \<and>
        (N h < 2 ^ 59 \<and> int (max_rows mc) < N h \<longrightarrow> xy_mat mc h = Inl MemoryError)"
      using ix t1 t2 t3 xy_mat_outcome [of hx mc] by blast
    show "\<exists>h. Heatpipes_init (PyInt k) rb rw riso rpa rpi lb liso lp = Inr h \<and> N h = k \<and>
        (0 \<le> N h \<and> N h < 2 ^ 59 \<and> N h \<le> int (max_rows mc) \<longrightarrow>
           (\<exists>pts. xy_mat mc h = Inr pts \<and> int (length pts) = N h)) \<and>
        (N h < 0 \<or> 2 ^ 59 \<le> N h \<longrightarrow> xy_mat mc h = Inl ValueError) \<and>
        (N h < 2 ^ 59 \<and> int (max_rows mc) < N h \<longrightarrow> xy_mat mc h = Inl MemoryError)"
      using ik nk xy_mat_outcome [of hk mc] by blast
  qed
qed

text \<open>
  A count given as 2.9 is stored as 2, and two pipes are returned; a count given as
  \<open>10\<^sup>2\<^sup>0\<close> is stored as it is, and \<open>np.zeros\<close> refuses it.
\<close>

theorem init_truncates_count_witness:
  "Heatpipes_init (PyFloat (29 / 10)) 5 4 3 2 1 1 1 1 =
     Inr \<lparr>N = 2, r_b = 5, r_w = 4, r_iso_a = 3, r_pa = 2, r_pi = 1,
          lambda_b = 1, lambda_iso = 1, lambda_p = 1\<rparr> \<and>
   (\<exists>pts. xy_mat exact_machine \<lparr>N = 2, r_b = 5, r_w = 4, r_iso_a = 3, r_pa = 2, r_pi = 1,
          lambda_b = 1, lambda_iso = 1, lambda_p = 1\<rparr> = Inr pts \<and> length pts = 2) \<and>
   Heatpipes_init (PyFloat 100000000000000000000) 5 4 3 2 1 1 1 1 =
     Inr \<lparr>N = 100000000000000000000, r_b = 5, r_w = 4, r_iso_a = 3, r_pa = 2, r_pi = 1,
          lambda_b = 1, lambda_iso = 1, lambda_p = 1\<rparr> \<and>
   xy_mat exact_machine \<lparr>N = 100000000000000000000, r_b = 5, r_w = 4, r_iso_a = 3, r_pa = 2,
          r_pi = 1, lambda_b = 1, lambda_iso = 1, lambda_p = 1\<rparr> = Inl ValueError"
proof -
  let ?h = "\<lambda>n. \<lparr>N = n, r_b = 5, r_w = 4, r_iso_a = 3, r_pa = 2, r_pi = 1,
          lambda_b = 1, lambda_iso = 1, lambda_p = 1\<rparr> :: Heatpipes"
  have i: "Heatpipes_init (PyFloat (29 / 10)) 5 4 3 2 1 1 1 1 = Inr (?h 2)"
    by (simp add: Heatpipes_init_def and_then_def)
  from init_truncates_count [of "29 / 10" 5 4 3 2 1 1 1 1 exact_machine 0] obtain h where
    h: "Heatpipes_init (PyFloat (29 / 10)) 5 4 3 2 1 1 1 1 = Inr h"
       "0 \<le> N h \<and> N h < 2 ^ 59 \<and> N h \<le> int (max_rows exact_machine) \<longrightarrow>
          (\<exists>pts. xy_mat exact_machine h = Inr pts \<and> int (length pts) = N h)"
    by blast
  from h(1) i have "h = ?h 2" by simp
  with h(2) obtain pts where "xy_mat exact_machine (?h 2) = Inr pts" "int (length pts) = 2"
    by (auto simp: exact_machine_simps)
  then have small: "\<exists>pts. xy_mat exact_machine (?h 2) = Inr pts \<and> length pts = 2" by auto
  have j: "Heatpipes_init (PyFloat 100000000000000000000) 5 4 3 2 1 1 1 1 =
             Inr (?h 100000000000000000000)"
    by (simp add: Heatpipes_init_def and_then_def)
  from init_truncates_count [of 100000000000000000000 5 4 3 2 1 1 1 1 exact_machine 0]
  obtain g where
    g: "Heatpipes_init (PyFloat 100000000000000000000) 5 4 3 2 1 1 1 1 = Inr g"
       "N g < 0 \<or> 2 ^ 59 \<le> N g \<longrightarrow> xy_mat exact_machine g = Inl ValueError"
    by blast
  from g(1) j have "g = ?h 100000000000000000000" by simp
  with g(2) have big: "xy_mat exact_machine (?h 100000000000000000000) = Inl ValueError"
    by simp
  from i small j big show ?thesis by simp
qed

text \<open>
  A count given as \<open>-1.5\<close> is stored as \<open>-1\<close>, and \<open>xy_mat\<close> then returns no matrix
  at all: \<open>np.zeros\<close> refuses the negative dimension.
\<close>

theorem negative_count_counterexample:
  "Heatpipes_init (PyFloat (- 3 / 2)) 5 4 3 2 1 1 1 1 =
     Inr \<lparr>N = - 1, r_b = 5, r_w = 4, r_iso_a = 3, r_pa = 2, r_pi = 1,
          lambda_b = 1, lambda_iso = 1, lambda_p = 1\<rparr> \<and>
   xy_mat exact_machine \<lparr>N = - 1, r_b = 5, r_w = 4, r_iso_a = 3, r_pa = 2, r_pi = 1,
          lambda_b = 1, lambda_iso = 1, lambda_p = 1\<rparr> = Inl ValueError"
  by (simp add: Heatpipes_init_def and_then_def xy_mat_def np_zeros2_def)

text \<open>
  C9: with a count of zero, \<open>xy_mat\<close> returns the empty matrix and raises nothing, whatever
  the other attributes and the machine are.
\<close>

theorem xy_mat_zero_count:
  "xy_mat mc \<lparr>N = 0, r_b = rb, r_w = rw, r_iso_a = riso, r_pa = rpa, r_pi = rpi,
           lambda_b = lb, lambda_iso = liso, lambda_p = lp\<rparr> = Inr []"
  by (simp add: xy_mat_def np_zeros2_def and_then_def py_range_empty)


section \<open>Properties of weather_data.py\<close>

text \<open>
  \<open>range\<close> between two non-negative bounds.
\<close>

lemma py_range_nat: "py_range (int a) (int b) = map int [a..<b]"
proof (rule nth_equalityI)
  show "length (py_range (int a) (int b)) = length (map int [a..<b])"
    by (simp add: py_range_def)
next
  fix k assume "k < length (py_range (int a) (int b))"
  then have "k < b - a" by (simp add: py_range_def)
  then show "py_range (int a) (int b) ! k = map int [a..<b] ! k"
    by (simp add: py_range_def)
qed

text \<open>
  Reading an object of the expected kind from the store.
\<close>

lemma frame_of_ok: "objs st a = Some (DataFrame t) \<Longrightarrow> frame_of st a = Inr t"
  by (simp add: frame_of_def)

lemma array_of_ok: "objs st a = Some (NdArray xs) \<Longrightarrow> array_of st a = Inr xs"
  by (simp add: array_of_def)

text \<open>
  Line 25.  When it returns, the start index is the position of a row of the table with the
  requested month and day; when no row matches, \<open>[0]\<close> is taken of the empty list.
\<close>

lemma item0_mem: "item0 xs = Inr s \<Longrightarrow> s \<in> set xs"
  by (cases xs) (simp_all add: item0_def)

lemma locate_start_eq:
  assumes "objs st data = Some (DataFrame t)"
  shows "locate_start st data month day =
    item0 (map int (filter (\<lambda>i. c0 (t ! i) = month \<and> c1 (t ! i) = day) [0..<length t]))"
  using assms by (simp add: locate_start_def matching_index_def frame_of_ok and_then_def)

lemma locate_start_found:
  assumes "objs st data = Some (DataFrame t)" "locate_start st data month day = Inr s"
  shows "0 \<le> s \<and> s < int (length t) \<and> c0 (t ! nat s) = month \<and> c1 (t ! nat s) = day"
proof -
  let ?ms = "map int (filter (\<lambda>i. c0 (t ! i) = month \<and> c1 (t ! i) = day) [0..<length t])"
  from assms have "item0 ?ms = Inr s" by (simp add: locate_start_eq)
  then have "s \<in> set ?ms" by (rule item0_mem)
  then show ?thesis by auto
qed

lemma locate_start_absent:
  assumes "objs st data = Some (DataFrame t)"
    and "list_all (\<lambda>r. \<not> (c0 r = month \<and> c1 r = day)) t"
  shows "locate_start st data month day = Inl IndexError"
proof -
  have "filter (\<lambda>i. c0 (t ! i) = month \<and> c1 (t ! i) = day) [0..<length t] = []"
    using assms(2) by (auto simp: filter_empty_conv list_all_iff)
  with assms(1) show ?thesis by (simp add: locate_start_eq item0_def)
qed

text \<open>
  Every position that lines 27 to 33 select is a position of the table, so that
  \<open>data.iloc[rows, k]\<close> never raises.
\<close>

lemma select_rows_in_range:
  assumes "0 \<le> s" "s < L"
  shows "list_all (\<lambda>i. 0 \<le> i \<and> i < L) (select_rows s Nt L)"
  using assms by (auto simp: select_rows_def py_range_def list_all_iff)

lemma iloc_ok:
  assumes "objs st a = Some (DataFrame t)"
    and "list_all (\<lambda>i. 0 \<le> i \<and> i < int (length t)) rows"
  shows "iloc st a rows col = Inr (map (\<lambda>i. col (t ! nat i)) rows)"
proof -
  have "list_all (\<lambda>i. - int (length t) \<le> i \<and> i < int (length t)) rows"
    using assms(2) by (auto simp: list_all_iff)
  moreover have "map (\<lambda>i. col (t ! nat (if i < 0 then i + int (length t) else i))) rows
      = map (\<lambda>i. col (t ! nat i)) rows"
    using assms(2) by (auto simp: list_all_iff)
  ultimately show ?thesis
    using assms(1) by (simp add: iloc_def frame_of_ok and_then_def Let_def)
qed

text \<open>
  Creating an array changes the store at the new address only.
\<close>

lemma np_array_iloc_step:
  assumes "objs st a = Some (DataFrame t)"
    and "list_all (\<lambda>i. 0 \<le> i \<and> i < int (length t)) rows"
  shows "\<exists>st'. np_array_iloc st a rows col = Inr (nxt st, st') \<and> nxt st' = Suc (nxt st) \<and>
           objs st' = (objs st)(nxt st \<mapsto> NdArray (map (\<lambda>i. col (t ! nat i)) rows))"
  using assms by (simp add: np_array_iloc_def iloc_ok and_then_def alloc_def)

lemma np_divide_step:
  assumes "objs st a = Some (NdArray xs)"
  shows "\<exists>st'. np_divide st a k = Inr (nxt st, st') \<and> nxt st' = Suc (nxt st) \<and>
           objs st' = (objs st)(nxt st \<mapsto> NdArray (map (\<lambda>x. x / k) xs))"
  using assms by (simp add: np_divide_def array_of_ok and_then_def alloc_def)

text \<open>
  The loop of lines 44 to 46, for any list of indices in range: it writes to the array
  \<open>S_w\<close> only, and an element is zeroed exactly when the loop visits it and the
  temperature at the same index is at least 1.
\<close>

lemma zero_rain_ok:
  assumes "objs st Th = Some (NdArray ts)" "objs st S = Some (NdArray xs)" "Th \<noteq> S"
    and "length xs = length ts" "list_all (\<lambda>i. i < length ts) js"
  shows "\<exists>st' ys. zero_rain Th S js st = Inr st' \<and> nxt st' = nxt st \<and>
           objs st' = (objs st)(S \<mapsto> NdArray ys) \<and> length ys = length xs \<and>
           (\<forall>k<length xs. ys ! k = (if k \<in> set js \<and> 1 \<le> ts ! k then 0 else xs ! k))"
  using assms(1,2,4,5)
proof (induction js arbitrary: st xs)
  case Nil
  have same: "objs st = (objs st)(S \<mapsto> NdArray xs)"
    using Nil.prems(2) by (simp add: fun_upd_idem)
  show ?case
  proof (intro exI conjI)
    show "zero_rain Th S [] st = Inr st" by simp
    show "nxt st = nxt st" ..
    show "objs st = (objs st)(S \<mapsto> NdArray xs)" by (rule same)
    show "length xs = length xs" ..
    show "\<forall>k<length xs. xs ! k = (if k \<in> set [] \<and> 1 \<le> ts ! k then 0 else xs ! k)"
      by simp
  qed
next
  case (Cons j js)
  from Cons.prems have j: "j < length ts" and js: "list_all (\<lambda>i. i < length ts) js" by simp_all
  have get: "getitem st Th j = Inr (ts ! j)"
    using Cons.prems(1) j by (simp add: getitem_def array_of_ok and_then_def)
  show ?case
  proof (cases "1 \<le> ts ! j")
    case True
    let ?st1 = "st\<lparr>objs := (objs st)(S \<mapsto> NdArray (xs[j := 0]))\<rparr>"
    have set: "setitem st S j 0 = Inr ?st1"
      using Cons.prems(2,3) j by (simp add: setitem_def array_of_ok and_then_def)
    have a: "objs ?st1 Th = Some (NdArray ts)" using Cons.prems(1) assms(3) by simp
    have b: "objs ?st1 S = Some (NdArray (xs[j := 0]))" by simp
    have c: "length (xs[j := 0]) = length ts" using Cons.prems(3) by simp
    from Cons.IH [OF a b c js] obtain st' ys where
      r: "zero_rain Th S js ?st1 = Inr st'" "nxt st' = nxt ?st1"
         "objs st' = (objs ?st1)(S \<mapsto> NdArray ys)" "length ys = length (xs[j := 0])"
         "\<forall>k<length (xs[j := 0]).
            ys ! k = (if k \<in> set js \<and> 1 \<le> ts ! k then 0 else xs[j := 0] ! k)"
      by blast
    have "zero_rain Th S (j # js) st = Inr st'"
      using get set True r(1) by (simp add: and_then_def)
    moreover have "nxt st' = nxt st" using r(2) by simp
    moreover have "objs st' = (objs st)(S \<mapsto> NdArray ys)" using r(3) by simp
    moreover have "length ys = length xs" using r(4) by simp
    moreover have "\<forall>k<length xs.
        ys ! k = (if k \<in> set (j # js) \<and> 1 \<le> ts ! k then 0 else xs ! k)"
    proof (intro allI impI)
      fix k assume k: "k < length xs"
      show "ys ! k = (if k \<in> set (j # js) \<and> 1 \<le> ts ! k then 0 else xs ! k)"
      proof (cases "k = j")
        case True
        with r(5) k \<open>1 \<le> ts ! j\<close> show ?thesis by simp
      next
        case False
        with r(5) k show ?thesis by simp
      qed
    qed
    ultimately show ?thesis by blast
  next
    case False
    from Cons.IH [OF Cons.prems(1,2,3) js] obtain st' ys where
      r: "zero_rain Th S js st = Inr st'" "nxt st' = nxt st"
         "objs st' = (objs st)(S \<mapsto> NdArray ys)" "length ys = length xs"
         "\<forall>k<length xs. ys ! k = (if k \<in> set js \<and> 1 \<le> ts ! k then 0 else xs ! k)"
      by blast
    have "zero_rain Th S (j # js) st = Inr st'"
      using get False r(1) by (simp add: and_then_def)
    moreover have "\<forall>k<length xs.
        ys ! k = (if k \<in> set (j # js) \<and> 1 \<le> ts ! k then 0 else xs ! k)"
      using r(5) False by auto
    ultimately show ?thesis using r(2,3,4) by blast
  qed
qed

lemma map2_same: "map2 f (map g xs) (map h xs) = map (\<lambda>x. f (g x) (h x)) xs"
  by (induction xs) auto

lemma enumerate_loop_ok:
  assumes "objs st Th = Some (NdArray ts)" "objs st S = Some (NdArray xs)" "Th \<noteq> S"
    and "length xs = length ts"
  shows "\<exists>st'. enumerate_loop Th S st = Inr st' \<and> nxt st' = nxt st \<and>
           objs st' = (objs st)(S \<mapsto> NdArray (map2 (\<lambda>t x. if 1 \<le> t then 0 else x) ts xs))"
proof -
  have "list_all (\<lambda>i. i < length ts) [0..<length ts]" by (simp add: list_all_iff)
  from zero_rain_ok [OF assms this] obtain st' ys where
    r: "zero_rain Th S [0..<length ts] st = Inr st'" "nxt st' = nxt st"
       "objs st' = (objs st)(S \<mapsto> NdArray ys)" "length ys = length xs"
       "\<forall>k<length xs. ys ! k = (if k \<in> set [0..<length ts] \<and> 1 \<le> ts ! k then 0 else xs ! k)"
    by blast
  have "ys = map2 (\<lambda>t x. if 1 \<le> t then 0 else x) ts xs"
    using r(4,5) assms(4) by (intro nth_equalityI) auto
  moreover have "enumerate_loop Th S st = Inr st'"
    using assms(1) r(1) by (simp add: enumerate_loop_def len_array_def array_of_ok and_then_def)
  ultimately show ?thesis using r(2,3) by blast
qed

text \<open>
  The whole run, given that the frame is an allocated object (its address is below the next
  free address) and that the start date is found: the function returns, eight arrays have
  been created at the next eight addresses (two of them temporaries), and nothing else in
  the store has changed.
\<close>

lemma get_weather_data_run:
  assumes frame: "objs st data = Some (DataFrame t)" and fresh: "data < nxt st"
    and start: "locate_start st data month day = Inr s"
  shows "\<exists>st'. get_weather_data Nt data month day st =
            Inr ((nxt st, nxt st + 1, nxt st + 2, nxt st + 4, nxt st + 6, nxt st + 7), st') \<and>
          nxt st' = nxt st + 8 \<and>
          objs st' = (objs st)
            (nxt st \<mapsto> NdArray (map (\<lambda>i. c6 (t ! nat i)) (select_rows s Nt (int (length t)))),
             nxt st + 1 \<mapsto> NdArray (map (\<lambda>i. c4 (t ! nat i)) (select_rows s Nt (int (length t)))),
             nxt st + 2 \<mapsto> NdArray (map (\<lambda>i. if 1 \<le> c4 (t ! nat i) then 0 else c3 (t ! nat i))
                                       (select_rows s Nt (int (length t)))),
             nxt st + 3 \<mapsto> NdArray (map (\<lambda>i. c7 (t ! nat i)) (select_rows s Nt (int (length t)))),
             nxt st + 4 \<mapsto> NdArray (map (\<lambda>i. c7 (t ! nat i) / 8) (select_rows s Nt (int (length t)))),
             nxt st + 5 \<mapsto> NdArray (map (\<lambda>i. c5 (t ! nat i)) (select_rows s Nt (int (length t)))),
             nxt st + 6 \<mapsto> NdArray (map (\<lambda>i. c5 (t ! nat i) / 100) (select_rows s Nt (int (length t)))),
             nxt st + 7 \<mapsto> NdArray (map (\<lambda>i. c3 (t ! nat i)) (select_rows s Nt (int (length t)))))"
proof -
  define n where "n = nxt st"
  define rows where "rows = select_rows s Nt (int (length t))"
  from locate_start_found [OF frame start] have s: "0 \<le> s" "s < int (length t)" by simp_all
  have rows: "list_all (\<lambda>i. 0 \<le> i \<and> i < int (length t)) rows"
    unfolding rows_def using s by (rule select_rows_in_range)
  have len: "len_frame st data = Inr (int (length t))"
    using frame by (simp add: len_frame_def frame_of_ok and_then_def)
  from np_array_iloc_step [OF frame rows, of c6] obtain st1 where
    1: "np_array_iloc st data rows c6 = Inr (n, st1)" "nxt st1 = Suc n"
       "objs st1 = (objs st)(n \<mapsto> NdArray (map (\<lambda>i. c6 (t ! nat i)) rows))"
    unfolding n_def by blast
  have f1: "objs st1 data = Some (DataFrame t)" using 1(3) frame fresh by (simp add: n_def)
  from np_array_iloc_step [OF f1 rows, of c4] obtain st2 where
    2: "np_array_iloc st1 data rows c4 = Inr (Suc n, st2)" "nxt st2 = Suc (Suc n)"
       "objs st2 = (objs st1)(Suc n \<mapsto> NdArray (map (\<lambda>i. c4 (t ! nat i)) rows))"
    unfolding 1(2) by blast
  have f2: "objs st2 data = Some (DataFrame t)" using 2(3) f1 fresh by (simp add: n_def)
  from np_array_iloc_step [OF f2 rows, of c3] obtain st3 where
    3: "np_array_iloc st2 data rows c3 = Inr (Suc (Suc n), st3)" "nxt st3 = Suc (Suc (Suc n))"
       "objs st3 = (objs st2)(Suc (Suc n) \<mapsto> NdArray (map (\<lambda>i. c3 (t ! nat i)) rows))"
    unfolding 2(2) by blast
  have f3: "objs st3 data = Some (DataFrame t)" using 3(3) f2 fresh by (simp add: n_def)
  have th: "objs st3 (Suc n) = Some (NdArray (map (\<lambda>i. c4 (t ! nat i)) rows))"
    using 3(3) 2(3) by simp
  have sw: "objs st3 (Suc (Suc n)) = Some (NdArray (map (\<lambda>i. c3 (t ! nat i)) rows))"
    using 3(3) by simp
  from enumerate_loop_ok [OF th sw] obtain st4 where
    4: "enumerate_loop (Suc n) (Suc (Suc n)) st3 = Inr st4" "nxt st4 = nxt st3"
       "objs st4 = (objs st3)(Suc (Suc n) \<mapsto>
          NdArray (map (\<lambda>i. if 1 \<le> c4 (t ! nat i) then 0 else c3 (t ! nat i)) rows))"
    by (auto simp: map2_same)
  have f4: "objs st4 data = Some (DataFrame t)" using 4(3) f3 fresh by (simp add: n_def)
  from np_array_iloc_step [OF f4 rows, of c7] obtain st5 where
    5: "np_array_iloc st4 data rows c7 = Inr (Suc (Suc (Suc n)), st5)"
       "nxt st5 = Suc (Suc (Suc (Suc n)))"
       "objs st5 = (objs st4)(Suc (Suc (Suc n)) \<mapsto> NdArray (map (\<lambda>i. c7 (t ! nat i)) rows))"
    unfolding 4(2) 3(2) by blast
  have o5: "objs st5 (Suc (Suc (Suc n))) = Some (NdArray (map (\<lambda>i. c7 (t ! nat i)) rows))"
    using 5(3) by simp
  from np_divide_step [OF o5, of 8] obtain st6 where
    6: "np_divide st5 (Suc (Suc (Suc n))) 8 = Inr (Suc (Suc (Suc (Suc n))), st6)"
       "nxt st6 = Suc (Suc (Suc (Suc (Suc n))))"
       "objs st6 = (objs st5)(Suc (Suc (Suc (Suc n))) \<mapsto>
          NdArray (map (\<lambda>i. c7 (t ! nat i) / 8) rows))"
    unfolding 5(2) by (auto simp: comp_def)
  have f6: "objs st6 data = Some (DataFrame t)" using 6(3) 5(3) f4 fresh by (simp add: n_def)
  from np_array_iloc_step [OF f6 rows, of c5] obtain st7 where
    7: "np_array_iloc st6 data rows c5 = Inr (Suc (Suc (Suc (Suc (Suc n)))), st7)"
       "nxt st7 = Suc (Suc (Suc (Suc (Suc (Suc n)))))"
       "objs st7 = (objs st6)(Suc (Suc (Suc (Suc (Suc n)))) \<mapsto>
          NdArray (map (\<lambda>i. c5 (t ! nat i)) rows))"
    unfolding 6(2) by blast
  have o7: "objs st7 (Suc (Suc (Suc (Suc (Suc n))))) = Some (NdArray (map (\<lambda>i. c5 (t ! nat i)) rows))"
    using 7(3) by simp
  from np_divide_step [OF o7, of 100] obtain st8 where
    8: "np_divide st7 (Suc (Suc (Suc (Suc (Suc n))))) 100 =
          Inr (Suc (Suc (Suc (Suc (Suc (Suc n))))), st8)"
       "nxt st8 = Suc (Suc (Suc (Suc (Suc (Suc (Suc n))))))"
       "objs st8 = (objs st7)(Suc (Suc (Suc (Suc (Suc (Suc n))))) \<mapsto>
          NdArray (map (\<lambda>i. c5 (t ! nat i) / 100) rows))"
    unfolding 7(2) by (auto simp: comp_def)
  have f8: "objs st8 data = Some (DataFrame t)" using 8(3) 7(3) f6 fresh by (simp add: n_def)
  from np_array_iloc_step [OF f8 rows, of c3] obtain st9 where
    9: "np_array_iloc st8 data rows c3 = Inr (Suc (Suc (Suc (Suc (Suc (Suc (Suc n)))))), st9)"
       "nxt st9 = Suc (Suc (Suc (Suc (Suc (Suc (Suc (Suc n)))))))"
       "objs st9 = (objs st8)(Suc (Suc (Suc (Suc (Suc (Suc (Suc n)))))) \<mapsto>
          NdArray (map (\<lambda>i. c3 (t ! nat i)) rows))"
    unfolding 8(2) by blast
  have run: "get_weather_data Nt data month day st =
      Inr ((n, Suc n, Suc (Suc n), Suc (Suc (Suc (Suc n))),
            Suc (Suc (Suc (Suc (Suc (Suc n))))),
            Suc (Suc (Suc (Suc (Suc (Suc (Suc n))))))), st9)"
    unfolding get_weather_data_def
    by (simp add: start len and_then_def Let_def rows_def [symmetric]
          1(1) 2(1) 3(1) 4(1) 5(1) 6(1) 7(1) 8(1) 9(1))
  have objs9: "objs st9 = (objs st)
            (n \<mapsto> NdArray (map (\<lambda>i. c6 (t ! nat i)) rows),
             n + 1 \<mapsto> NdArray (map (\<lambda>i. c4 (t ! nat i)) rows),
             n + 2 \<mapsto> NdArray (map (\<lambda>i. if 1 \<le> c4 (t ! nat i) then 0 else c3 (t ! nat i)) rows),
             n + 3 \<mapsto> NdArray (map (\<lambda>i. c7 (t ! nat i)) rows),
             n + 4 \<mapsto> NdArray (map (\<lambda>i. c7 (t ! nat i) / 8) rows),
             n + 5 \<mapsto> NdArray (map (\<lambda>i. c5 (t ! nat i)) rows),
             n + 6 \<mapsto> NdArray (map (\<lambda>i. c5 (t ! nat i) / 100) rows),
             n + 7 \<mapsto> NdArray (map (\<lambda>i. c3 (t ! nat i)) rows))"
    unfolding 9(3) 8(3) 7(3) 6(3) 5(3) 4(3) 3(3) 2(3) 1(3) by (simp add: eval_nat_numeral)
  show ?thesis
    unfolding n_def [symmetric] rows_def [symmetric]
    using run 9(2) objs9 by (simp add: eval_nat_numeral)
qed

text \<open>
  Facts about the example table.
\<close>

lemma store3_frame: "objs store3 0 = Some (DataFrame table3)"
  by (simp add: store3_def)

lemma store3_nxt: "nxt store3 = 1"
  by (simp add: store3_def)

lemma table3_length: "length table3 = 3"
  by (simp add: table3_def)

lemma store3_start: "locate_start store3 0 1 2 = Inr 1"
  by (simp add: locate_start_eq [OF store3_frame] item0_def table3_def)

lemma store3_absent: "list_all (\<lambda>r. \<not> (c0 r = 12 \<and> c1 r = 24)) table3"
  by (simp add: table3_def)

lemma select_rows_1_2_3: "select_rows 1 2 3 = [1, 2]"
  by (simp add: select_rows_def py_range_def upto_rec1)

lemma select_rows_1_3_3: "select_rows 1 3 3 = [1, 2, 0]"
  by (simp add: select_rows_def py_range_def upto_rec1)

lemma rows_1_3: "select_rows 1 3 (int (length table3)) = [1, 2, 0]"
  by (simp add: table3_length select_rows_1_3_3)

lemma rows_1_2: "select_rows 1 2 (int (length table3)) = [1, 2]"
  by (simp add: table3_length select_rows_1_2_3)

lemma store3_fresh: "0 < nxt store3"
  by (simp add: store3_nxt)

text \<open>
  C1: for a table of length \<open>L\<close>, a start index \<open>s\<close> found in it (so \<open>s < L\<close>) and a step
  count \<open>Nt\<close>, the selected positions are \<open>[s, s + Nt)\<close>, \<open>Nt\<close> of them, if
  \<open>s + Nt \<le> L\<close>; else \<open>[s, L)\<close> followed by \<open>[0, s)\<close> if \<open>s \<noteq> 0\<close>; else
  \<open>[0, L)\<close>; in the last two cases there are \<open>L\<close> of them, not \<open>Nt\<close>.
\<close>

theorem select_rows_window:
  assumes "s < L"
  shows "select_rows (int s) (int Nt) (int L) =
           map int (if s + Nt \<le> L then [s..<s + Nt]
                    else if s \<noteq> 0 then [s..<L] @ [0..<s]
                    else [0..<L]) \<and>
         length (select_rows (int s) (int Nt) (int L)) = (if s + Nt \<le> L then Nt else L)"
proof -
  have a: "py_range (int s) (int s + int Nt) = map int [s..<s + Nt]"
    using py_range_nat [of s "s + Nt"] by simp
  have b: "py_range 0 (int k) = map int [0..<k]" for k
    using py_range_nat [of 0 k] by simp
  show ?thesis
    using assms by (auto simp: select_rows_def a b py_range_nat)
qed

text \<open>
  The three cases on a table of 100 rows: start 10 with 5 steps, start 95 with 10 steps,
  start 0 with 500 steps.
\<close>

theorem select_rows_window_witness:
  "(10::nat) < 100 \<and> select_rows 10 5 100 = [10, 11, 12, 13, 14] \<and>
   (95::nat) < 100 \<and> length (select_rows 95 10 100) = 100 \<and>
   (0::nat) < 100 \<and> length (select_rows 0 500 100) = 100"
  using select_rows_window [of 10 100 5] select_rows_window [of 95 100 10]
    select_rows_window [of 0 100 500]
  by simp

text \<open>
  The lookup of line 25 is the only step that can raise, and it comes first.
\<close>

lemma locate_start_cases:
  assumes "objs st data = Some (DataFrame t)"
  shows "locate_start st data month day = Inl IndexError \<or>
         (\<exists>s. locate_start st data month day = Inr s)"
  unfolding locate_start_eq [OF assms] item0_def by (simp split: list.split)

lemma get_weather_data_fails:
  "locate_start st data month day = Inl e \<Longrightarrow> get_weather_data Nt data month day st = Inl e"
  by (simp add: get_weather_data_def and_then_def)

text \<open>
  C4, as amended: when no row of the table has the requested month and day, the function
  raises \<open>IndexError\<close>, from taking element 0 of the empty list of matches.
\<close>

theorem missing_date_index_error:
  assumes "objs st data = Some (DataFrame t)"
    and "list_all (\<lambda>r. \<not> (c0 r = month \<and> c1 r = day)) t"
  shows "get_weather_data Nt data month day st = Inl IndexError"
  using locate_start_absent [OF assms] by (rule get_weather_data_fails)

text \<open>
  The example table has no row for 24 December.
\<close>

theorem missing_date_index_error_witness:
  "objs store3 0 = Some (DataFrame table3) \<and>
   list_all (\<lambda>r. \<not> (c0 r = 12 \<and> c1 r = 24)) table3 \<and>
   get_weather_data 2 0 12 24 store3 = Inl IndexError"
  using missing_date_index_error [OF store3_frame store3_absent, of 2] store3_frame store3_absent
  by simp

text \<open>
  Nor has it one for 7 July: the exception raised is \<open>IndexError\<close>, and so it is not
  \<open>NotFoundError\<close>.
\<close>

theorem missing_date_counterexample:
  "objs store3 0 = Some (DataFrame table3) \<and>
   list_all (\<lambda>r. \<not> (c0 r = 7 \<and> c1 r = 7)) table3 \<and>
   get_weather_data 24 0 7 7 store3 = Inl IndexError \<and>
   get_weather_data 24 0 7 7 store3 \<noteq> Inl NotFoundError"
proof -
  have "locate_start store3 0 7 7 = Inl IndexError"
    by (simp add: locate_start_eq [OF store3_frame] item0_def table3_def)
  then have "get_weather_data 24 0 7 7 store3 = Inl IndexError"
    by (rule get_weather_data_fails)
  then show ?thesis by (simp add: store3_frame) (simp add: table3_def)
qed

text \<open>
  C2: at every selected row, the returned total precipitation is the value of column 3
  and the returned temperature the value of column 4; the returned snowfall rate is 0
  where that temperature is at least 1 and the value of column 3 elsewhere.  Hence the
  snowfall rate equals the total precipitation where the temperature is below 1, and is 0
  where it is at least 1.
\<close>

theorem snowfall_is_precipitation_below_one_degree:
  assumes "objs st data = Some (DataFrame t)" and "data < nxt st"
    and "locate_start st data month day = Inr s"
  shows "\<exists>u_inf Theta_inf S_w B Phi RR st' ts ss ps.
     get_weather_data Nt data month day st = Inr ((u_inf, Theta_inf, S_w, B, Phi, RR), st') \<and>
     objs st' Theta_inf = Some (NdArray ts) \<and>
     objs st' S_w = Some (NdArray ss) \<and>
     objs st' RR = Some (NdArray ps) \<and>
     length ts = length (select_rows s Nt (int (length t))) \<and>
     length ss = length (select_rows s Nt (int (length t))) \<and>
     length ps = length (select_rows s Nt (int (length t))) \<and>
     (\<forall>i<length (select_rows s Nt (int (length t))).
        ts ! i = c4 (t ! nat (select_rows s Nt (int (length t)) ! i)) \<and>
        ps ! i = c3 (t ! nat (select_rows s Nt (int (length t)) ! i)) \<and>
        ss ! i = (if 1 \<le> c4 (t ! nat (select_rows s Nt (int (length t)) ! i)) then 0
                  else c3 (t ! nat (select_rows s Nt (int (length t)) ! i))) \<and>
        (ts ! i < 1 \<longrightarrow> ss ! i = ps ! i) \<and>
        (1 \<le> ts ! i \<longrightarrow> ss ! i = 0))"
proof -
  define rows where "rows = select_rows s Nt (int (length t))"
  define n where "n = nxt st"
  from get_weather_data_run [OF assms, of Nt] obtain st' where
    run: "get_weather_data Nt data month day st =
            Inr ((n, n + 1, n + 2, n + 4, n + 6, n + 7), st')"
    and th: "objs st' (n + 1) = Some (NdArray (map (\<lambda>i. c4 (t ! nat i)) rows))"
    and sw: "objs st' (n + 2) =
               Some (NdArray (map (\<lambda>i. if 1 \<le> c4 (t ! nat i) then 0 else c3 (t ! nat i)) rows))"
    and rr: "objs st' (n + 7) = Some (NdArray (map (\<lambda>i. c3 (t ! nat i)) rows))"
    unfolding rows_def n_def by auto
  show ?thesis
    unfolding rows_def [symmetric]
  proof (intro exI conjI)
    show "get_weather_data Nt data month day st =
            Inr ((n, n + 1, n + 2, n + 4, n + 6, n + 7), st')" by (rule run)
    show "objs st' (n + 1) = Some (NdArray (map (\<lambda>i. c4 (t ! nat i)) rows))" by (rule th)
    show "objs st' (n + 2) =
            Some (NdArray (map (\<lambda>i. if 1 \<le> c4 (t ! nat i) then 0 else c3 (t ! nat i)) rows))"
      by (rule sw)
    show "objs st' (n + 7) = Some (NdArray (map (\<lambda>i. c3 (t ! nat i)) rows))" by (rule rr)
  qed simp_all
qed

text \<open>
  A list is determined by its length and its elements.
\<close>

lemma nth_map_eq:
  "length xs = length rows \<Longrightarrow> \<forall>i<length rows. xs ! i = f (rows ! i) \<Longrightarrow> xs = map f rows"
  by (auto intro: nth_equalityI)

text \<open>
  Three steps from 2 January on the example table (rows 1, 2, 0): only the row at
  6 \<degree>C loses its precipitation.
\<close>

theorem snowfall_is_precipitation_below_one_degree_witness:
  "objs store3 0 = Some (DataFrame table3) \<and> 0 < nxt store3 \<and>
   locate_start store3 0 1 2 = Inr 1 \<and>
   (\<exists>u_inf Theta_inf S_w B Phi RR st'.
      get_weather_data 3 0 1 2 store3 = Inr ((u_inf, Theta_inf, S_w, B, Phi, RR), st') \<and>
      objs st' Theta_inf = Some (NdArray [6, 1 / 2, - 3]) \<and>
      objs st' S_w = Some (NdArray [0, 1, 2]) \<and>
      objs st' RR = Some (NdArray [5, 1, 2]))"
proof -
  let ?rows = "[1, 2, 0] :: int list"
  from snowfall_is_precipitation_below_one_degree [OF store3_frame store3_fresh store3_start, of 3]
  obtain u_inf Theta_inf S_w B Phi RR st' ts ss ps where
    run: "get_weather_data 3 0 1 2 store3 = Inr ((u_inf, Theta_inf, S_w, B, Phi, RR), st')"
    and o: "objs st' Theta_inf = Some (NdArray ts)" "objs st' S_w = Some (NdArray ss)"
           "objs st' RR = Some (NdArray ps)"
    and l: "length ts = length ?rows" "length ss = length ?rows" "length ps = length ?rows"
    and e: "\<forall>i<length ?rows.
              ts ! i = c4 (table3 ! nat (?rows ! i)) \<and>
              ps ! i = c3 (table3 ! nat (?rows ! i)) \<and>
              ss ! i = (if 1 \<le> c4 (table3 ! nat (?rows ! i)) then 0
                        else c3 (table3 ! nat (?rows ! i))) \<and>
              (ts ! i < 1 \<longrightarrow> ss ! i = ps ! i) \<and> (1 \<le> ts ! i \<longrightarrow> ss ! i = 0)"
    unfolding rows_1_3 by blast
  from e have "\<forall>i<length ?rows. ts ! i = (\<lambda>r. c4 (table3 ! nat r)) (?rows ! i)" by blast
  from nth_map_eq [OF l(1) this] have ts: "ts = [6, 1 / 2, - 3]"
    by (simp add: table3_def)
  from e have "\<forall>i<length ?rows. ss ! i =
      (\<lambda>r. if 1 \<le> c4 (table3 ! nat r) then 0 else c3 (table3 ! nat r)) (?rows ! i)" by blast
  from nth_map_eq [OF l(2) this] have ss: "ss = [0, 1, 2]"
    by (simp add: table3_def)
  from e have "\<forall>i<length ?rows. ps ! i = (\<lambda>r. c3 (table3 ! nat r)) (?rows ! i)" by blast
  from nth_map_eq [OF l(3) this] have ps: "ps = [5, 1, 2]"
    by (simp add: table3_def)
  from run o show ?thesis
    unfolding ts ss ps using store3_frame store3_fresh store3_start by blast
qed

text \<open>
  C6: at every selected row the returned cloud fraction is the value of column 7 divided
  by 8 and the returned relative humidity the value of column 5 divided by 100; they lie
  in \<open>[0, 1]\<close> whenever the raw values lie in \<open>[0, 8]\<close> and \<open>[0, 100]\<close>.
\<close>

theorem cloud_and_humidity_fractions:
  assumes "objs st data = Some (DataFrame t)" and "data < nxt st"
    and "locate_start st data month day = Inr s"
  shows "\<exists>u_inf Theta_inf S_w B Phi RR st' bs phis.
     get_weather_data Nt data month day st = Inr ((u_inf, Theta_inf, S_w, B, Phi, RR), st') \<and>
     objs st' B = Some (NdArray bs) \<and>
     objs st' Phi = Some (NdArray phis) \<and>
     length bs = length (select_rows s Nt (int (length t))) \<and>
     length phis = length (select_rows s Nt (int (length t))) \<and>
     (\<forall>i<length (select_rows s Nt (int (length t))).
        bs ! i = c7 (t ! nat (select_rows s Nt (int (length t)) ! i)) / 8 \<and>
        phis ! i = c5 (t ! nat (select_rows s Nt (int (length t)) ! i)) / 100 \<and>
        (0 \<le> c7 (t ! nat (select_rows s Nt (int (length t)) ! i)) \<and>
         c7 (t ! nat (select_rows s Nt (int (length t)) ! i)) \<le> 8 \<longrightarrow>
           0 \<le> bs ! i \<and> bs ! i \<le> 1) \<and>
        (0 \<le> c5 (t ! nat (select_rows s Nt (int (length t)) ! i)) \<and>
         c5 (t ! nat (select_rows s Nt (int (length t)) ! i)) \<le> 100 \<longrightarrow>
           0 \<le> phis ! i \<and> phis ! i \<le> 1))"
proof -
  define rows where "rows = select_rows s Nt (int (length t))"
  define n where "n = nxt st"
  from get_weather_data_run [OF assms, of Nt] obtain st' where
    run: "get_weather_data Nt data month day st =
            Inr ((n, n + 1, n + 2, n + 4, n + 6, n + 7), st')"
    and b: "objs st' (n + 4) = Some (NdArray (map (\<lambda>i. c7 (t ! nat i) / 8) rows))"
    and phi: "objs st' (n + 6) = Some (NdArray (map (\<lambda>i. c5 (t ! nat i) / 100) rows))"
    unfolding rows_def n_def by auto
  show ?thesis
    unfolding rows_def [symmetric]
  proof (intro exI conjI)
    show "get_weather_data Nt data month day st =
            Inr ((n, n + 1, n + 2, n + 4, n + 6, n + 7), st')" by (rule run)
    show "objs st' (n + 4) = Some (NdArray (map (\<lambda>i. c7 (t ! nat i) / 8) rows))" by (rule b)
    show "objs st' (n + 6) = Some (NdArray (map (\<lambda>i. c5 (t ! nat i) / 100) rows))"
      by (rule phi)
  qed simp_all
qed

text \<open>
  On the example table: 4, 0 and 8 octas, and 50, 100 and 80 percent.
\<close>

theorem cloud_and_humidity_fractions_witness:
  "objs store3 0 = Some (DataFrame table3) \<and> 0 < nxt store3 \<and>
   locate_start store3 0 1 2 = Inr 1 \<and>
   (\<exists>u_inf Theta_inf S_w B Phi RR st'.
      get_weather_data 3 0 1 2 store3 = Inr ((u_inf, Theta_inf, S_w, B, Phi, RR), st') \<and>
      objs st' B = Some (NdArray [1 / 2, 0, 1]) \<and>
      objs st' Phi = Some (NdArray [1 / 2, 1, 4 / 5]))"
proof -
  let ?rows = "[1, 2, 0] :: int list"
  from cloud_and_humidity_fractions [OF store3_frame store3_fresh store3_start, of 3]
  obtain u_inf Theta_inf S_w B Phi RR st' bs phis where
    run: "get_weather_data 3 0 1 2 store3 = Inr ((u_inf, Theta_inf, S_w, B, Phi, RR), st')"
    and o: "objs st' B = Some (NdArray bs)" "objs st' Phi = Some (NdArray phis)"
    and l: "length bs = length ?rows" "length phis = length ?rows"
    and e: "\<forall>i<length ?rows.
              bs ! i = c7 (table3 ! nat (?rows ! i)) / 8 \<and>
              phis ! i = c5 (table3 ! nat (?rows ! i)) / 100 \<and>
              (0 \<le> c7 (table3 ! nat (?rows ! i)) \<and> c7 (table3 ! nat (?rows ! i)) \<le> 8 \<longrightarrow>
                 0 \<le> bs ! i \<and> bs ! i \<le> 1) \<and>
              (0 \<le> c5 (table3 ! nat (?rows ! i)) \<and> c5 (table3 ! nat (?rows ! i)) \<le> 100 \<longrightarrow>
                 0 \<le> phis ! i \<and> phis ! i \<le> 1)"
    unfolding rows_1_3 by blast
  from e have "\<forall>i<length ?rows. bs ! i = (\<lambda>r. c7 (table3 ! nat r) / 8) (?rows ! i)" by blast
  from nth_map_eq [OF l(1) this] have bs: "bs = [1 / 2, 0, 1]"
    by (simp add: table3_def)
  from e have "\<forall>i<length ?rows. phis ! i = (\<lambda>r. c5 (table3 ! nat r) / 100) (?rows ! i)" by blast
  from nth_map_eq [OF l(2) this] have phis: "phis = [1 / 2, 1, 4 / 5]"
    by (simp add: table3_def)
  from run o show ?thesis
    unfolding bs phis using store3_frame store3_fresh store3_start by blast
qed

text \<open>
  C7: when the start date is found the function returns six arrays, each as long as the
  list of selected positions; element \<open>i\<close> of each of them is computed from the row of
  the table at the \<open>i\<close>-th selected position, which is a position of the table.
\<close>

theorem six_series_aligned:
  assumes "objs st data = Some (DataFrame t)" and "data < nxt st"
    and "locate_start st data month day = Inr s"
  shows "\<exists>u_inf Theta_inf S_w B Phi RR st' us ts ss bs phis ps.
     get_weather_data Nt data month day st = Inr ((u_inf, Theta_inf, S_w, B, Phi, RR), st') \<and>
     objs st' u_inf = Some (NdArray us) \<and>
     objs st' Theta_inf = Some (NdArray ts) \<and>
     objs st' S_w = Some (NdArray ss) \<and>
     objs st' B = Some (NdArray bs) \<and>
     objs st' Phi = Some (NdArray phis) \<and>
     objs st' RR = Some (NdArray ps) \<and>
     length us = length (select_rows s Nt (int (length t))) \<and>
     length ts = length (select_rows s Nt (int (length t))) \<and>
     length ss = length (select_rows s Nt (int (length t))) \<and>
     length bs = length (select_rows s Nt (int (length t))) \<and>
     length phis = length (select_rows s Nt (int (length t))) \<and>
     length ps = length (select_rows s Nt (int (length t))) \<and>
     (\<forall>i<length (select_rows s Nt (int (length t))).
        0 \<le> select_rows s Nt (int (length t)) ! i \<and>
        select_rows s Nt (int (length t)) ! i < int (length t) \<and>
        us ! i = c6 (t ! nat (select_rows s Nt (int (length t)) ! i)) \<and>
        ts ! i = c4 (t ! nat (select_rows s Nt (int (length t)) ! i)) \<and>
        ss ! i = (if 1 \<le> c4 (t ! nat (select_rows s Nt (int (length t)) ! i)) then 0
                  else c3 (t ! nat (select_rows s Nt (int (length t)) ! i))) \<and>
        bs ! i = c7 (t ! nat (select_rows s Nt (int (length t)) ! i)) / 8 \<and>
        phis ! i = c5 (t ! nat (select_rows s Nt (int (length t)) ! i)) / 100 \<and>
        ps ! i = c3 (t ! nat (select_rows s Nt (int (length t)) ! i)))"
proof -
  define rows where "rows = select_rows s Nt (int (length t))"
  define n where "n = nxt st"
  from locate_start_found [OF assms(1,3)] have "0 \<le> s" "s < int (length t)" by simp_all
  then have "list_all (\<lambda>i. 0 \<le> i \<and> i < int (length t)) rows"
    unfolding rows_def by (rule select_rows_in_range)
  then have inr: "\<forall>i<length rows. 0 \<le> rows ! i \<and> rows ! i < int (length t)"
    by (simp add: list_all_length)
  from get_weather_data_run [OF assms, of Nt] obtain st' where
    run: "get_weather_data Nt data month day st =
            Inr ((n, n + 1, n + 2, n + 4, n + 6, n + 7), st')"
    and u: "objs st' n = Some (NdArray (map (\<lambda>i. c6 (t ! nat i)) rows))"
    and th: "objs st' (n + 1) = Some (NdArray (map (\<lambda>i. c4 (t ! nat i)) rows))"
    and sw: "objs st' (n + 2) =
               Some (NdArray (map (\<lambda>i. if 1 \<le> c4 (t ! nat i) then 0 else c3 (t ! nat i)) rows))"
    and b: "objs st' (n + 4) = Some (NdArray (map (\<lambda>i. c7 (t ! nat i) / 8) rows))"
    and phi: "objs st' (n + 6) = Some (NdArray (map (\<lambda>i. c5 (t ! nat i) / 100) rows))"
    and rr: "objs st' (n + 7) = Some (NdArray (map (\<lambda>i. c3 (t ! nat i)) rows))"
    unfolding rows_def n_def by auto
  show ?thesis
    unfolding rows_def [symmetric]
  proof (intro exI conjI)
    show "get_weather_data Nt data month day st =
            Inr ((n, n + 1, n + 2, n + 4, n + 6, n + 7), st')" by (rule run)
    show "objs st' n = Some (NdArray (map (\<lambda>i. c6 (t ! nat i)) rows))" by (rule u)
    show "objs st' (n + 1) = Some (NdArray (map (\<lambda>i. c4 (t ! nat i)) rows))" by (rule th)
    show "objs st' (n + 2) =
            Some (NdArray (map (\<lambda>i. if 1 \<le> c4 (t ! nat i) then 0 else c3 (t ! nat i)) rows))"
      by (rule sw)
    show "objs st' (n + 4) = Some (NdArray (map (\<lambda>i. c7 (t ! nat i) / 8) rows))" by (rule b)
    show "objs st' (n + 6) = Some (NdArray (map (\<lambda>i. c5 (t ! nat i) / 100) rows))"
      by (rule phi)
    show "objs st' (n + 7) = Some (NdArray (map (\<lambda>i. c3 (t ! nat i)) rows))" by (rule rr)
  qed (use inr in simp_all)
qed

text \<open>
  Two steps from 2 January on the example table (rows 1, 2).
\<close>

theorem six_series_aligned_witness:
  "objs store3 0 = Some (DataFrame table3) \<and> 0 < nxt store3 \<and>
   locate_start store3 0 1 2 = Inr 1 \<and>
   (\<exists>u_inf Theta_inf S_w B Phi RR st'.
      get_weather_data 2 0 1 2 store3 = Inr ((u_inf, Theta_inf, S_w, B, Phi, RR), st') \<and>
      objs st' u_inf = Some (NdArray [1, 0]) \<and>
      objs st' Theta_inf = Some (NdArray [6, 1 / 2]) \<and>
      objs st' S_w = Some (NdArray [0, 1]) \<and>
      objs st' B = Some (NdArray [1 / 2, 0]) \<and>
      objs st' Phi = Some (NdArray [1 / 2, 1]) \<and>
      objs st' RR = Some (NdArray [5, 1]))"
proof -
  let ?rows = "[1, 2] :: int list"
  from six_series_aligned [OF store3_frame store3_fresh store3_start, of 2]
  obtain u_inf Theta_inf S_w B Phi RR st' us ts ss bs phis ps where
    run: "get_weather_data 2 0 1 2 store3 = Inr ((u_inf, Theta_inf, S_w, B, Phi, RR), st')"
    and o: "objs st' u_inf = Some (NdArray us)" "objs st' Theta_inf = Some (NdArray ts)"
           "objs st' S_w = Some (NdArray ss)" "objs st' B = Some (NdArray bs)"
           "objs st' Phi = Some (NdArray phis)" "objs st' RR = Some (NdArray ps)"
    and l: "length us = length ?rows" "length ts = length ?rows" "length ss = length ?rows"
           "length bs = length ?rows" "length phis = length ?rows" "length ps = length ?rows"
    and e: "\<forall>i<length ?rows.
              0 \<le> ?rows ! i \<and> ?rows ! i < int (length table3) \<and>
              us ! i = c6 (table3 ! nat (?rows ! i)) \<and>
              ts ! i = c4 (table3 ! nat (?rows ! i)) \<and>
              ss ! i = (if 1 \<le> c4 (table3 ! nat (?rows ! i)) then 0
                        else c3 (table3 ! nat (?rows ! i))) \<and>
              bs ! i = c7 (table3 ! nat (?rows ! i)) / 8 \<and>
              phis ! i = c5 (table3 ! nat (?rows ! i)) / 100 \<and>
              ps ! i = c3 (table3 ! nat (?rows ! i))"
    unfolding rows_1_2 by blast
  from e have "\<forall>i<length ?rows. us ! i = (\<lambda>r. c6 (table3 ! nat r)) (?rows ! i)" by blast
  from nth_map_eq [OF l(1) this] have us: "us = [1, 0]" by (simp add: table3_def)
  from e have "\<forall>i<length ?rows. ts ! i = (\<lambda>r. c4 (table3 ! nat r)) (?rows ! i)" by blast
  from nth_map_eq [OF l(2) this] have ts: "ts = [6, 1 / 2]" by (simp add: table3_def)
  from e have "\<forall>i<length ?rows. ss ! i =
      (\<lambda>r. if 1 \<le> c4 (table3 ! nat r) then 0 else c3 (table3 ! nat r)) (?rows ! i)" by blast
  from nth_map_eq [OF l(3) this] have ss: "ss = [0, 1]" by (simp add: table3_def)
  from e have "\<forall>i<length ?rows. bs ! i = (\<lambda>r. c7 (table3 ! nat r) / 8) (?rows ! i)" by blast
  from nth_map_eq [OF l(4) this] have bs: "bs = [1 / 2, 0]" by (simp add: table3_def)
  from e have "\<forall>i<length ?rows. phis ! i = (\<lambda>r. c5 (table3 ! nat r) / 100) (?rows ! i)" by blast
  from nth_map_eq [OF l(5) this] have phis: "phis = [1 / 2, 1]" by (simp add: table3_def)
  from e have "\<forall>i<length ?rows. ps ! i = (\<lambda>r. c3 (table3 ! nat r)) (?rows ! i)" by blast
  from nth_map_eq [OF l(6) this] have ps: "ps = [5, 1]" by (simp add: table3_def)
  from run o show ?thesis
    unfolding us ts ss bs phis ps using store3_frame store3_fresh store3_start by blast
qed

text \<open>
  C8: a call either raises at the lookup of the start date, before anything is created or
  written, or returns a store in which the frame, and every other object that existed
  before the call, is what it was: the assignments \<open>S_w[i] = 0\<close> go to an array created
  during the call.
\<close>

theorem table_not_mutated:
  assumes "objs st data = Some (DataFrame t)" and "data < nxt st"
  shows "(locate_start st data month day = Inl IndexError \<and>
          get_weather_data Nt data month day st = Inl IndexError) \<or>
         (\<exists>res st'. get_weather_data Nt data month day st = Inr (res, st') \<and>
            objs st' data = Some (DataFrame t) \<and>
            (\<forall>a<nxt st. objs st' a = objs st a))"
proof -
  from locate_start_cases [OF assms(1), of month day] show ?thesis
  proof
    assume f: "locate_start st data month day = Inl IndexError"
    then have "get_weather_data Nt data month day st = Inl IndexError"
      by (rule get_weather_data_fails)
    with f show ?thesis by blast
  next
    assume "\<exists>s. locate_start st data month day = Inr s"
    then obtain s where s: "locate_start st data month day = Inr s" ..
    from get_weather_data_run [OF assms s, of Nt] obtain res st' where
      run: "get_weather_data Nt data month day st = Inr (res, st')"
      and same: "\<forall>a<nxt st. objs st' a = objs st a"
      by auto
    from same assms have "objs st' data = Some (DataFrame t)" by simp
    with run same show ?thesis by blast
  qed
qed

text \<open>
  On the example table, where the loop does zero an element of \<open>S_w\<close>.
\<close>

theorem table_not_mutated_witness:
  "objs store3 0 = Some (DataFrame table3) \<and> 0 < nxt store3 \<and>
   (\<exists>res st'. get_weather_data 3 0 1 2 store3 = Inr (res, st') \<and>
      objs st' 0 = Some (DataFrame table3))"
proof -
  have "locate_start store3 0 1 2 \<noteq> Inl IndexError" by (simp add: store3_start)
  with table_not_mutated [OF store3_frame store3_fresh, of 1 2 3]
  show ?thesis using store3_frame store3_fresh by blast
qed

end
